theory Spec2Isabelle
  imports Main "HOL-Library.Word" "HOL-Library.Sublist"
begin

unbundle bit_operations_syntax

section \<open>Machine types\<close>

text \<open>
  The module is built for a 64-bit kernel: \<open>unsigned long\<close>, \<open>size_t\<close> and every
  pointer are 64 bits wide, \<open>uint32_t\<close> and \<open>int\<close> are 32 bits wide, \<open>ssize_t\<close> is a
  signed 64-bit value. Arithmetic on words wraps around, as the C arithmetic on
  unsigned values does. A pointer is the address it holds; \<open>NULL\<close> is address 0.
\<close>

type_synonym u32 = "32 word"
type_synonym u64 = "64 word"
type_synonym ptr = "64 word"

definition NULL :: ptr where
  "NULL = 0"

section \<open>vm.h: data model\<close>

record vmctx =
  memories :: ptr
  tables :: ptr
  globals :: ptr
  imported_memories :: ptr
  imported_tables :: ptr
  imported_globals :: ptr
  imported_funcs :: ptr
  dynamic_sigindices :: ptr
  intrinsics :: ptr
  stack_lower_bound :: ptr

record vm_intrinsics =
  memory_grow :: ptr
  memory_size :: ptr

record local_memory =
  lm_base :: ptr
  lm_bound :: u64
  lm_unused :: ptr

record local_table =
  lt_base :: ptr
  lt_count :: u64
  lt_unused :: ptr

text \<open>
  The part of kernel memory that \<open>vmctx_get_memory_slice\<close> reads: the cells that hold
  a \<open>struct local_memory *\<close> and the \<open>struct local_memory\<close> objects, each by address.
  An address outside the domain is not a valid object of that type.
\<close>

record heap =
  local_memory_ptr_at :: "ptr \<rightharpoonup> ptr"
  local_memory_at :: "ptr \<rightharpoonup> local_memory"

section \<open>vm.h: page rounding and the checked memory slice\<close>

definition round_up_to_page_size :: "u64 \<Rightarrow> u64" where
  "round_up_to_page_size x = (x + 4095) AND (NOT 4095)"

text \<open>
  The result is \<open>None\<close> when the function reads through a pointer that is not valid in
  the heap (undefined behaviour in C), and \<open>Some p\<close> when it returns the pointer \<open>p\<close>.
\<close>

definition vmctx_get_memory_slice :: "heap \<Rightarrow> vmctx \<Rightarrow> u32 \<Rightarrow> u32 \<Rightarrow> ptr option" where
  "vmctx_get_memory_slice h ctx offset len =
     (if memories ctx = NULL then Some NULL
      else case local_memory_ptr_at h (memories ctx) of
        None \<Rightarrow> None
      | Some mp \<Rightarrow>
          (case local_memory_at h mp of
             None \<Rightarrow> None
           | Some mem \<Rightarrow>
               (let begin_addr = lm_base mem + ucast offset;
                    end_addr = begin_addr + ucast len;
                    real_end = lm_base mem + lm_bound mem
                in if end_addr < begin_addr \<or> begin_addr < lm_base mem
                      \<or> begin_addr \<ge> real_end \<or> end_addr > real_end
                   then Some NULL
                   else Some begin_addr)))"

text \<open>
  The memory list of \<open>ctx\<close> is readable in \<open>h\<close> and its first entry is \<open>mem\<close>.
\<close>

definition memory_of :: "heap \<Rightarrow> vmctx \<Rightarrow> local_memory option" where
  "memory_of h ctx =
     (if memories ctx = NULL then None
      else case local_memory_ptr_at h (memories ctx) of
        None \<Rightarrow> None
      | Some mp \<Rightarrow> local_memory_at h mp)"

text \<open>
  A valid region: the buffer is allocated (its base is not \<open>NULL\<close>) and lies inside the
  address space, so \<open>base + bound\<close> does not wrap.
\<close>

definition valid_local_memory :: "local_memory \<Rightarrow> bool" where
  "valid_local_memory mem \<longleftrightarrow>
     lm_base mem \<noteq> NULL \<and> unat (lm_base mem) + unat (lm_bound mem) < 2 ^ 64"

section \<open>vm.h: the execution engine and the session\<close>

text \<open>
  \<open>struct module_resolver\<close> is declared in a header that is not part of the sources
  read here; the engine record takes its type as the parameter \<open>'r\<close>.
\<close>

record 'r execution_engine =
  ctx :: vmctx
  local_memory_backing :: local_memory
  local_memory_ptr_backing :: ptr
  local_table_backing :: local_table
  local_table_ptr_backing :: ptr
  intrinsics_backing :: vm_intrinsics
  resolver :: 'r
  local_global_backing :: ptr
  local_global_ptr_backing :: ptr
  code :: ptr
  code_len :: u32
  stack_begin :: ptr
  stack_end :: ptr
  stack_backing :: ptr

record 'r privileged_session =
  ready :: "32 word"
  ee :: "'r execution_engine"

definition init_privileged_session :: "'r privileged_session \<Rightarrow> 'r privileged_session" where
  "init_privileged_session sess = sess\<lparr>ready := 0\<rparr>"

text \<open>
  The kernel's page protection, as far as instruction fetch goes: for every page,
  numbered by its address divided by 4096, whether code may be executed from it.
\<close>

type_synonym page_prot = "u64 \<Rightarrow> bool"

text \<open>
  The pages that \<open>set_memory_nx(addr, numpages)\<close> and \<open>set_memory_x(addr, numpages)\<close>
  work on: \<open>numpages\<close> pages, the first being the page of \<open>addr\<close>.
\<close>

definition page_in_range :: "ptr \<Rightarrow> u64 \<Rightarrow> u64 \<Rightarrow> bool" where
  "page_in_range addr numpages p \<longleftrightarrow>
     unat (addr div 4096) \<le> unat p \<and> unat p < unat (addr div 4096) + unat numpages"

text \<open>
  \<open>set_memory_nx\<close> and \<open>set_memory_x\<close> are kernel functions. They return an \<open>int\<close>: 0
  after the protection of the range has been changed, an error when the kernel could
  not change it. The first parameter says which of the two happens; a failed call is
  taken to leave the protection as it was. The result is the protection afterwards; the
  \<open>int\<close> is not part of it because both callers below discard it.
\<close>

definition set_memory_nx :: "bool \<Rightarrow> ptr \<Rightarrow> u64 \<Rightarrow> page_prot \<Rightarrow> page_prot" where
  "set_memory_nx succeeds addr numpages prot =
     (if succeeds then (\<lambda>p. if page_in_range addr numpages p then False else prot p)
      else prot)"

definition set_memory_x :: "bool \<Rightarrow> ptr \<Rightarrow> u64 \<Rightarrow> page_prot \<Rightarrow> page_prot" where
  "set_memory_x succeeds addr numpages prot =
     (if succeeds then (\<lambda>p. if page_in_range addr numpages p then True else prot p)
      else prot)"

text \<open>
  \<open>ee_make_code_nx\<close> and \<open>ee_make_code_x\<close> of \<open>vm.h\<close>: the range is the code buffer's
  address and its length rounded up to whole pages. The first parameter is the outcome
  of the kernel call they make.
\<close>

definition ee_make_code_nx :: "bool \<Rightarrow> 'r execution_engine \<Rightarrow> page_prot \<Rightarrow> page_prot" where
  "ee_make_code_nx succeeds eng prot =
     set_memory_nx succeeds (code eng)
       (round_up_to_page_size (ucast (code_len eng)) div 4096) prot"

definition ee_make_code_x :: "bool \<Rightarrow> 'r execution_engine \<Rightarrow> page_prot \<Rightarrow> page_prot" where
  "ee_make_code_x succeeds eng prot =
     set_memory_x succeeds (code eng)
       (round_up_to_page_size (ucast (code_len eng)) div 4096) prot"

text \<open>The pages both functions ask the kernel to change: those of the code buffer.\<close>

definition code_page :: "'r execution_engine \<Rightarrow> u64 \<Rightarrow> bool" where
  "code_page eng p \<longleftrightarrow>
     page_in_range (code eng) (round_up_to_page_size (ucast (code_len eng)) div 4096) p"

section \<open>The control device: loading code\<close>

definition EINVAL :: "32 word" where
  "EINVAL = 22"

definition EFAULT :: "32 word" where
  "EFAULT = 14"

text \<open>
  \<open>handle_wasm_load_code\<close>. The session is \<open>f->private_data\<close>. \<open>struct load_code_request\<close>
  and \<open>init_execution_engine\<close> are declared only, so the request type is the parameter
  \<open>'q\<close> and two parameters stand for what the function calls:
  \<^item> \<open>copy_from_user\<close> reads the request at the user address \<open>arg\<close>, \<open>None\<close> when the
    copy fails (the C function then returns a nonzero count);
  \<^item> \<open>init_execution_engine\<close> receives the request and the session's engine and
    returns its \<open>int\<close> result together with the engine as it leaves it.
  The result is the \<open>ssize_t\<close> returned (the \<open>int\<close> error sign-extended) and the session
  afterwards. The \<open>printk\<close> of the success path changes no state and is left out.
\<close>

definition handle_wasm_load_code ::
  "(ptr \<Rightarrow> 'q option) \<Rightarrow> ('q \<Rightarrow> 'r execution_engine \<Rightarrow> 32 word \<times> 'r execution_engine)
    \<Rightarrow> 'r privileged_session \<Rightarrow> ptr \<Rightarrow> 64 word \<times> 'r privileged_session" where
  "handle_wasm_load_code copy_from_user init_execution_engine sess arg =
     (if ready sess \<noteq> 0 then (scast (- EINVAL), sess)
      else case copy_from_user arg of
        None \<Rightarrow> (scast (- EFAULT), sess)
      | Some req \<Rightarrow>
          (case init_execution_engine req (ee sess) of
             (err, eng) \<Rightarrow>
               if sint err < 0 then (scast err, sess\<lparr>ee := eng\<rparr>)
               else (0, sess\<lparr>ee := eng, ready := 1\<rparr>)))"

section \<open>The control device: running code\<close>

text \<open>
  Modelled from the spec: \<open>struct run_code_request\<close> is declared in \<open>request.h\<close>, which is
  not among the sources. The run input is the entry offset (a byte offset into the loaded
  code, passed on as the \<open>uint32_t\<close> offset of \<open>ee_call0\<close>) and the parameter count.
\<close>

record run_code_request =
  entry_offset :: u32
  param_count :: u32

text \<open>The lines written with \<open>printk\<close> by the run path, in order.\<close>

datatype log_msg =
    Log_unable_to_start
  | Log_stack ptr ptr
  | Log_invalid_param_count
  | Log_bad_result "32 word"
  | Log_result u64

text \<open>
  What the task body does to the shared task structure and the engine, in order:
  \<open>up(&task->sem)\<close>, entering \<open>ee_call0\<close> at an offset, its return with a value, and the
  store of that value into \<open>task->ret\<close>.
\<close>

datatype event =
    Ev_up
  | Ev_call u32
  | Ev_return u64
  | Ev_store u64

text \<open>
  \<open>handle_wasm_run_code\<close> runs on the caller's thread (the controller) and
  \<open>code_runner\<close> on a kernel thread; both work on the \<open>struct code_runner_task\<close> in the
  controller's frame. Each thread is a sequence of program points, one per statement
  that touches shared state or can block; an execution is an interleaving of their steps.

  Program points of \<open>handle_wasm_run_code\<close> (source lines in brackets):
  \<^item> \<open>C_copy_from_user\<close> [200], \<open>C_check_ready\<close> [204], \<open>C_init_task\<close> [208-210],
    \<open>C_kthread_create\<close> [212-216], \<open>C_wake_up\<close> [217-218];
  \<^item> \<open>C_down_started\<close> [220], \<open>C_down_finished\<close> [222], \<open>C_make_nx\<close> [224-225];
  \<^item> \<open>C_kthread_stop\<close> [228], \<open>C_report\<close> [229-235], \<open>C_drain\<close> [236],
    \<open>C_restore_x\<close> [237-239], \<open>C_return\<close> [240];
  \<^item> \<open>C_failed\<close>: returned early with an error [201, 205, 215];
    \<open>C_returned\<close>: returned from line 240.
\<close>

datatype ctl_pc =
    C_copy_from_user
  | C_check_ready
  | C_init_task
  | C_kthread_create
  | C_wake_up
  | C_down_started
  | C_down_finished
  | C_make_nx
  | C_kthread_stop
  | C_report
  | C_drain
  | C_restore_x
  | C_return
  | C_failed
  | C_returned

text \<open>
  Program points of the runner thread: \<open>R_none\<close> (no thread yet), \<open>R_created\<close> (created by
  \<open>kthread_create\<close>, not yet woken), \<open>R_code_runner\<close> [176-185: the \<open>printk\<close> of
  \<open>code_runner\<close> and \<open>start_coroutine\<close>, which enters \<open>code_runner_inner\<close>],
  \<open>R_up_started\<close> [167], \<open>R_check_params\<close> [168], \<open>R_call off\<close> [171, inside
  \<open>ee_call0\<close>], \<open>R_store v\<close> [171, the assignment to \<open>task->ret\<close>], \<open>R_up_finished\<close>
  [172], \<open>R_inner_done\<close> [174, 186-189: the coroutine has terminated and \<open>code_runner\<close>
  returns 0], \<open>R_exited c\<close> (the thread has exited with code \<open>c\<close>).
\<close>

datatype runner_pc =
    R_none
  | R_created
  | R_code_runner
  | R_up_started
  | R_check_params
  | R_call u32
  | R_store u64
  | R_up_finished
  | R_inner_done
  | R_exited "32 word"

text \<open>
  What the run path takes from outside the two functions:
  \<^item> \<open>copied_request\<close>: the request \<open>copy_from_user\<close> reads at \<open>arg\<close>, \<open>None\<close> when the copy
    fails;
  \<^item> \<open>kthread_create_succeeds\<close>: whether \<open>kthread_create\<close> returns a thread;
  \<^item> \<open>ee_call0\<close>: declared in \<open>vm.h\<close>, defined elsewhere. It enters the loaded code at
    the offset and returns the 64-bit value of the entry function; \<open>None\<close> when the entry
    function does not return by itself;
  \<^item> \<open>fault_exit_code\<close>: the exit code of a thread killed by the fault of an instruction
    fetch from a non-executable page;
  \<^item> \<open>set_memory_nx_succeeds\<close>, \<open>set_memory_x_succeeds\<close>: whether the kernel changes the
    protection when \<open>ee_make_code_nx\<close> and \<open>ee_make_code_x\<close> ask for it.
\<close>

record 'r run_env =
  copied_request :: "run_code_request option"
  kthread_create_succeeds :: bool
  ee_call0 :: "'r execution_engine \<Rightarrow> u32 \<Rightarrow> u64 option"
  fault_exit_code :: "32 word"
  set_memory_nx_succeeds :: bool
  set_memory_x_succeeds :: bool

text \<open>
  The state of one run: the two program points, the session, the kernel's page
  protection, the locals of \<open>handle_wasm_run_code\<close> (\<open>req\<close>, \<open>task.sem\<close> as the
  semaphore's count, \<open>task.ret\<close>, \<open>made_nx\<close>, \<open>ret\<close>), whether a signal is pending for the
  controller, the value returned to the caller (\<open>None\<close> until the function returns), the
  kernel log, and the runner's events. The return value is all the caller receives: the
  function never writes to user memory.
\<close>

record 'r run_state =
  cpc :: ctl_pc
  rpc :: runner_pc
  session :: "'r privileged_session"
  page_executable :: page_prot
  run_req :: "run_code_request option"
  task_sem :: nat
  task_ret :: u64
  made_nx :: bool
  stop_ret :: "32 word"
  signal_pending :: bool
  retval :: "64 word option"
  klog :: "log_msg list"
  trace :: "event list"

text \<open>
  Entry to \<open>handle_wasm_run_code\<close>. \<open>task\<close> lives in the frame and is not initialised:
  the semaphore's count and \<open>task.ret\<close> start with whatever the stack holds.
\<close>

definition run_entry :: "'r privileged_session \<Rightarrow> page_prot \<Rightarrow> nat \<Rightarrow> u64 \<Rightarrow> 'r run_state" where
  "run_entry sess prot junk_sem junk_ret =
     \<lparr>cpc = C_copy_from_user, rpc = R_none, session = sess, page_executable = prot,
      run_req = None, task_sem = junk_sem, task_ret = junk_ret, made_nx = False,
      stop_ret = 0, signal_pending = False, retval = None, klog = [], trace = []\<rparr>"

text \<open>
  One step of the controller. A blocked call leaves the state as it is: \<open>down\<close> waits for
  a positive count; \<open>down_interruptible\<close> takes a positive count, and otherwise returns
  \<open>-EINTR\<close> once a signal is pending; \<open>kthread_stop\<close> waits until the thread has exited and
  returns its exit code; \<open>down_trylock\<close> returns 0 exactly when it took a count.
\<close>

definition handle_wasm_run_code_step :: "'r run_env \<Rightarrow> 'r run_state \<Rightarrow> 'r run_state" where
  "handle_wasm_run_code_step env s =
     (case cpc s of
        C_copy_from_user \<Rightarrow>
          (case copied_request env of
             None \<Rightarrow> s\<lparr>cpc := C_failed, retval := Some (scast (- EFAULT))\<rparr>
           | Some r \<Rightarrow> s\<lparr>run_req := Some r, cpc := C_check_ready\<rparr>)
      | C_check_ready \<Rightarrow>
          if ready (session s) = 0
          then s\<lparr>cpc := C_failed, retval := Some (scast (- EINVAL))\<rparr>
          else s\<lparr>cpc := C_init_task\<rparr>
      | C_init_task \<Rightarrow> s\<lparr>task_sem := 0, cpc := C_kthread_create\<rparr>
      | C_kthread_create \<Rightarrow>
          if kthread_create_succeeds env
          then s\<lparr>rpc := R_created, cpc := C_wake_up\<rparr>
          else s\<lparr>klog := klog s @ [Log_unable_to_start], cpc := C_failed,
                 retval := Some (scast (- EINVAL))\<rparr>
      | C_wake_up \<Rightarrow> s\<lparr>rpc := R_code_runner, cpc := C_down_started\<rparr>
      | C_down_started \<Rightarrow>
          if task_sem s = 0 then s
          else s\<lparr>task_sem := task_sem s - 1, cpc := C_down_finished\<rparr>
      | C_down_finished \<Rightarrow>
          if task_sem s \<noteq> 0 then s\<lparr>task_sem := task_sem s - 1, cpc := C_kthread_stop\<rparr>
          else if signal_pending s then s\<lparr>cpc := C_make_nx\<rparr>
          else s
      | C_make_nx \<Rightarrow>
          s\<lparr>page_executable :=
              ee_make_code_nx (set_memory_nx_succeeds env) (ee (session s)) (page_executable s),
            made_nx := True, cpc := C_kthread_stop\<rparr>
      | C_kthread_stop \<Rightarrow>
          (case rpc s of
             R_exited c \<Rightarrow> s\<lparr>stop_ret := c, cpc := C_report\<rparr>
           | _ \<Rightarrow> s)
      | C_report \<Rightarrow>
          s\<lparr>klog := klog s @ [if stop_ret s \<noteq> 0 then Log_bad_result (stop_ret s)
                               else Log_result (task_ret s)],
            cpc := C_drain\<rparr>
      | C_drain \<Rightarrow>
          if task_sem s \<noteq> 0 then s\<lparr>task_sem := task_sem s - 1\<rparr>
          else s\<lparr>cpc := C_restore_x\<rparr>
      | C_restore_x \<Rightarrow>
          if made_nx s
          then s\<lparr>page_executable :=
                   ee_make_code_x (set_memory_x_succeeds env) (ee (session s))
                     (page_executable s),
                 cpc := C_return\<rparr>
          else s\<lparr>cpc := C_return\<rparr>
      | C_return \<Rightarrow> s\<lparr>retval := Some 0, cpc := C_returned\<rparr>
      | C_failed \<Rightarrow> s
      | C_returned \<Rightarrow> s)"

text \<open>
  One step of the runner thread: \<open>code_runner\<close> and, on the coroutine it starts,
  \<open>code_runner_inner\<close>. The thread does not run before \<open>wake_up_process\<close>. Inside
  \<open>ee_call0\<close> the thread executes the code at the entry offset: it is killed by the fault
  when the page of the entry (\<open>fetch_page\<close>) is not executable, it returns the entry
  function's value when there is one, and it keeps running otherwise.
\<close>

definition fetch_page :: "'r execution_engine \<Rightarrow> u32 \<Rightarrow> u64" where
  "fetch_page eng off = (code eng + ucast off) div 4096"


definition code_runner_step :: "'r run_env \<Rightarrow> 'r run_state \<Rightarrow> 'r run_state" where
  "code_runner_step env s =
     (case rpc s of
        R_none \<Rightarrow> s
      | R_created \<Rightarrow> s
      | R_code_runner \<Rightarrow>
          s\<lparr>klog := klog s @ [Log_stack (stack_begin (ee (session s)))
                                        (stack_end (ee (session s)))],
            rpc := R_up_started\<rparr>
      | R_up_started \<Rightarrow>
          s\<lparr>task_sem := task_sem s + 1, trace := trace s @ [Ev_up], rpc := R_check_params\<rparr>
      | R_check_params \<Rightarrow>
          (case run_req s of
             None \<Rightarrow> s
           | Some r \<Rightarrow>
               if param_count r \<noteq> 0
               then s\<lparr>klog := klog s @ [Log_invalid_param_count], rpc := R_inner_done\<rparr>
               else s\<lparr>trace := trace s @ [Ev_call (entry_offset r)],
                      rpc := R_call (entry_offset r)\<rparr>)
      | R_call off \<Rightarrow>
          if \<not> page_executable s (fetch_page (ee (session s)) off)
          then s\<lparr>rpc := R_exited (fault_exit_code env)\<rparr>
          else (case ee_call0 env (ee (session s)) off of
                  None \<Rightarrow> s
                | Some v \<Rightarrow> s\<lparr>trace := trace s @ [Ev_return v], rpc := R_store v\<rparr>)
      | R_store v \<Rightarrow>
          s\<lparr>task_ret := v, trace := trace s @ [Ev_store v], rpc := R_up_finished\<rparr>
      | R_up_finished \<Rightarrow>
          s\<lparr>task_sem := task_sem s + 1, trace := trace s @ [Ev_up], rpc := R_inner_done\<rparr>
      | R_inner_done \<Rightarrow> s\<lparr>rpc := R_exited 0\<rparr>
      | R_exited c \<Rightarrow> s)"

text \<open>
  The scheduler's choices: a step of the controller, a step of the runner, or the
  arrival of a signal for the controller.
\<close>

datatype action = Controller | Runner | Signal

definition step :: "'r run_env \<Rightarrow> action \<Rightarrow> 'r run_state \<Rightarrow> 'r run_state" where
  "step env a s =
     (case a of
        Controller \<Rightarrow> handle_wasm_run_code_step env s
      | Runner \<Rightarrow> code_runner_step env s
      | Signal \<Rightarrow> s\<lparr>signal_pending := True\<rparr>)"

primrec run_schedule :: "'r run_env \<Rightarrow> action list \<Rightarrow> 'r run_state \<Rightarrow> 'r run_state" where
  "run_schedule env [] s = s"
| "run_schedule env (a # as) s = run_schedule env as (step env a s)"

text \<open>
  \<open>handle_wasm_run_code\<close> as the caller sees it: the state a schedule leads to from the
  entry.
\<close>

definition handle_wasm_run_code ::
  "'r run_env \<Rightarrow> 'r privileged_session \<Rightarrow> page_prot \<Rightarrow> nat \<Rightarrow> u64 \<Rightarrow> action list
    \<Rightarrow> 'r run_state" where
  "handle_wasm_run_code env sess prot junk_sem junk_ret sched =
     run_schedule env sched (run_entry sess prot junk_sem junk_ret)"

section \<open>Invariants of a run\<close>

text \<open>The number of releases of the semaphore by the task body so far.\<close>

definition ups :: "event list \<Rightarrow> nat" where
  "ups t = count_list t Ev_up"

text \<open>
  What the task body has done when it reaches its end: with a nonzero parameter count
  it has released the semaphore once, logged the rejection and left \<open>task->ret\<close> alone;
  otherwise it has released, called, stored the value and released again.
\<close>

definition runner_finished ::
  "'r run_env \<Rightarrow> 'r privileged_session \<Rightarrow> u64 \<Rightarrow> run_code_request \<Rightarrow> 'r run_state \<Rightarrow> bool" where
  "runner_finished env sess junk_ret r s \<longleftrightarrow>
     (param_count r \<noteq> 0 \<and> trace s = [Ev_up] \<and> task_ret s = junk_ret
        \<and> Log_invalid_param_count \<in> set (klog s))
     \<or> (param_count r = 0
        \<and> ee_call0 env (ee sess) (entry_offset r) = Some (task_ret s)
        \<and> trace s = [Ev_up, Ev_call (entry_offset r), Ev_return (task_ret s),
                      Ev_store (task_ret s), Ev_up])"

text \<open>The runner's events and \<open>task->ret\<close>, by its program point.\<close>

definition runner_inv ::
  "'r run_env \<Rightarrow> 'r privileged_session \<Rightarrow> u64 \<Rightarrow> run_code_request \<Rightarrow> 'r run_state \<Rightarrow> bool" where
  "runner_inv env sess junk_ret r s \<longleftrightarrow>
     (case rpc s of
        R_none \<Rightarrow> trace s = [] \<and> task_ret s = junk_ret
      | R_created \<Rightarrow> trace s = [] \<and> task_ret s = junk_ret
      | R_code_runner \<Rightarrow> trace s = [] \<and> task_ret s = junk_ret
      | R_up_started \<Rightarrow> trace s = [] \<and> task_ret s = junk_ret
      | R_check_params \<Rightarrow> trace s = [Ev_up] \<and> task_ret s = junk_ret
      | R_call off \<Rightarrow>
          param_count r = 0 \<and> off = entry_offset r
          \<and> trace s = [Ev_up, Ev_call (entry_offset r)] \<and> task_ret s = junk_ret
      | R_store v \<Rightarrow>
          param_count r = 0 \<and> ee_call0 env (ee sess) (entry_offset r) = Some v
          \<and> trace s = [Ev_up, Ev_call (entry_offset r), Ev_return v] \<and> task_ret s = junk_ret
      | R_up_finished \<Rightarrow>
          param_count r = 0 \<and> ee_call0 env (ee sess) (entry_offset r) = Some (task_ret s)
          \<and> trace s = [Ev_up, Ev_call (entry_offset r), Ev_return (task_ret s),
                        Ev_store (task_ret s)]
      | R_inner_done \<Rightarrow> runner_finished env sess junk_ret r s
      | R_exited c \<Rightarrow>
          (c = 0 \<and> runner_finished env sess junk_ret r s)
          \<or> (c = fault_exit_code env \<and> param_count r = 0
              \<and> trace s = [Ev_up, Ev_call (entry_offset r)] \<and> task_ret s = junk_ret))"

text \<open>
  Up to the interruption of the second wait nothing of the entry state has changed but
  the copied request.
\<close>

definition before_nx :: "page_prot \<Rightarrow> run_code_request \<Rightarrow> 'r run_state \<Rightarrow> bool" where
  "before_nx prot r s \<longleftrightarrow>
     \<not> made_nx s \<and> page_executable s = prot \<and> run_req s = Some r \<and> retval s = None"

text \<open>The protection after the forced termination has begun, and after it has ended.\<close>

definition prot_stopped :: "'r run_env \<Rightarrow> 'r privileged_session \<Rightarrow> page_prot \<Rightarrow> page_prot" where
  "prot_stopped env sess prot = ee_make_code_nx (set_memory_nx_succeeds env) (ee sess) prot"

definition prot_restored :: "'r run_env \<Rightarrow> 'r privileged_session \<Rightarrow> page_prot \<Rightarrow> page_prot" where
  "prot_restored env sess prot =
     ee_make_code_x (set_memory_x_succeeds env) (ee sess) (prot_stopped env sess prot)"

text \<open>
  After \<open>kthread_stop\<close> and the report: the runner has exited with the code in \<open>ret\<close>, an
  uninterrupted wait has seen both releases, and an exit code of 0 has put \<open>task.ret\<close>
  into the log.
\<close>

definition after_stop :: "'r run_state \<Rightarrow> bool" where
  "after_stop s \<longleftrightarrow>
     rpc s = R_exited (stop_ret s)
     \<and> (\<not> made_nx s \<longrightarrow> ups (trace s) = 2)
     \<and> (stop_ret s = 0 \<longrightarrow> Log_result (task_ret s) \<in> set (klog s))"

text \<open>What holds at each program point of the controller.\<close>

definition ctl_inv ::
  "'r run_env \<Rightarrow> 'r privileged_session \<Rightarrow> page_prot \<Rightarrow> run_code_request \<Rightarrow> 'r run_state
    \<Rightarrow> bool" where
  "ctl_inv env sess prot r s \<longleftrightarrow>
     (case cpc s of
        C_copy_from_user \<Rightarrow>
          rpc s = R_none \<and> \<not> made_nx s \<and> page_executable s = prot \<and> retval s = None
      | C_check_ready \<Rightarrow> rpc s = R_none \<and> before_nx prot r s
      | C_init_task \<Rightarrow> rpc s = R_none \<and> before_nx prot r s
      | C_kthread_create \<Rightarrow> rpc s = R_none \<and> before_nx prot r s \<and> task_sem s = 0
      | C_wake_up \<Rightarrow> rpc s = R_created \<and> before_nx prot r s \<and> task_sem s = 0
      | C_down_started \<Rightarrow>
          rpc s \<noteq> R_none \<and> rpc s \<noteq> R_created \<and> before_nx prot r s
          \<and> task_sem s = ups (trace s)
      | C_down_finished \<Rightarrow>
          rpc s \<noteq> R_none \<and> rpc s \<noteq> R_created \<and> before_nx prot r s
          \<and> task_sem s + 1 = ups (trace s)
      | C_make_nx \<Rightarrow>
          rpc s \<noteq> R_none \<and> rpc s \<noteq> R_created \<and> before_nx prot r s
          \<and> task_sem s + 1 = ups (trace s)
      | C_kthread_stop \<Rightarrow>
          rpc s \<noteq> R_none \<and> rpc s \<noteq> R_created \<and> run_req s = Some r \<and> retval s = None
          \<and> page_executable s = (if made_nx s then prot_stopped env sess prot else prot)
          \<and> task_sem s + (if made_nx s then 1 else 2) = ups (trace s)
      | C_report \<Rightarrow>
          rpc s = R_exited (stop_ret s) \<and> retval s = None
          \<and> page_executable s = (if made_nx s then prot_stopped env sess prot else prot)
          \<and> (\<not> made_nx s \<longrightarrow> ups (trace s) = 2)
      | C_drain \<Rightarrow>
          after_stop s \<and> retval s = None
          \<and> page_executable s = (if made_nx s then prot_stopped env sess prot else prot)
      | C_restore_x \<Rightarrow>
          after_stop s \<and> retval s = None \<and> task_sem s = 0
          \<and> page_executable s = (if made_nx s then prot_stopped env sess prot else prot)
      | C_return \<Rightarrow>
          after_stop s \<and> retval s = None \<and> task_sem s = 0
          \<and> page_executable s = (if made_nx s then prot_restored env sess prot else prot)
      | C_returned \<Rightarrow>
          after_stop s \<and> retval s = Some 0 \<and> task_sem s = 0
          \<and> page_executable s = (if made_nx s then prot_restored env sess prot else prot)
      | C_failed \<Rightarrow>
          rpc s = R_none \<and> \<not> made_nx s \<and> page_executable s = prot
          \<and> retval s = Some (scast (- EINVAL))
          \<and> (ready sess = 0 \<or> \<not> kthread_create_succeeds env))"

definition run_inv ::
  "'r run_env \<Rightarrow> 'r privileged_session \<Rightarrow> page_prot \<Rightarrow> u64 \<Rightarrow> run_code_request \<Rightarrow> 'r run_state
    \<Rightarrow> bool" where
  "run_inv env sess prot junk_ret r s \<longleftrightarrow>
     session s = sess \<and> ctl_inv env sess prot r s \<and> runner_inv env sess junk_ret r s"

text \<open>When \<open>copy_from_user\<close> fails, the run ends at once with \<open>-EFAULT\<close>.\<close>

definition no_request_inv :: "'r privileged_session \<Rightarrow> page_prot \<Rightarrow> 'r run_state \<Rightarrow> bool" where
  "no_request_inv sess prot s \<longleftrightarrow>
     session s = sess \<and> rpc s = R_none \<and> \<not> made_nx s \<and> page_executable s = prot
     \<and> trace s = []
     \<and> ((cpc s = C_copy_from_user \<and> retval s = None)
         \<or> (cpc s = C_failed \<and> retval s = Some (scast (- EFAULT))))"

section \<open>Runs without a signal\<close>





text \<open>The program points of the controller up to and including its second wait.\<close>

definition before_stop :: "ctl_pc \<Rightarrow> bool" where
  "before_stop c =
     (case c of
        C_copy_from_user \<Rightarrow> True
      | C_check_ready \<Rightarrow> True
      | C_init_task \<Rightarrow> True
      | C_kthread_create \<Rightarrow> True
      | C_wake_up \<Rightarrow> True
      | C_down_started \<Rightarrow> True
      | C_down_finished \<Rightarrow> True
      | C_failed \<Rightarrow> True
      | _ \<Rightarrow> False)"

text \<open>
  What holds along a run in which no signal has arrived for a request with a nonzero
  parameter count: the controller has not got past its second wait.
\<close>

definition waiting_inv ::
  "'r run_env \<Rightarrow> 'r privileged_session \<Rightarrow> page_prot \<Rightarrow> u64 \<Rightarrow> run_code_request \<Rightarrow> 'r run_state
    \<Rightarrow> bool" where
  "waiting_inv env sess prot junk_ret r s \<longleftrightarrow>
     run_inv env sess prot junk_ret r s \<and> \<not> signal_pending s \<and> before_stop (cpc s)"

section \<open>Example inputs\<close>

text \<open>
  A concrete heap used to evaluate the slice check: the memory list of \<open>example_ctx\<close>
  sits at address \<open>0x100\<close>, its first entry points to the \<open>struct local_memory\<close> at
  \<open>0x200\<close>, which describes a 16-byte buffer at \<open>0x1000\<close>.
\<close>

definition example_mem :: local_memory where
  "example_mem = \<lparr>lm_base = 0x1000, lm_bound = 16, lm_unused = 0\<rparr>"

definition example_heap :: heap where
  "example_heap = \<lparr>local_memory_ptr_at = [0x100 \<mapsto> 0x200],
                    local_memory_at = [0x200 \<mapsto> example_mem]\<rparr>"

definition example_ctx :: vmctx where
  "example_ctx = \<lparr>memories = 0x100, tables = 0, globals = 0, imported_memories = 0,
                   imported_tables = 0, imported_globals = 0, imported_funcs = 0,
                   dynamic_sigindices = 0, intrinsics = 0, stack_lower_bound = 0\<rparr>"

text \<open>
  A loaded session: an engine with 5000 bytes of code (two pages) and a ready flag of 1.
\<close>

definition example_engine :: "unit execution_engine" where
  "example_engine =
     \<lparr>ctx = example_ctx, local_memory_backing = example_mem, local_memory_ptr_backing = 0x200,
      local_table_backing = \<lparr>lt_base = 0, lt_count = 0, lt_unused = 0\<rparr>,
      local_table_ptr_backing = 0,
      intrinsics_backing = \<lparr>memory_grow = 0, memory_size = 0\<rparr>, resolver = (),
      local_global_backing = 0, local_global_ptr_backing = 0,
      code = 0x40000, code_len = 5000,
      stack_begin = 0x80000, stack_end = 0x280000, stack_backing = 0x7E000\<rparr>"

definition example_session :: "unit privileged_session" where
  "example_session = \<lparr>ready = 1, ee = example_engine\<rparr>"

text \<open>
  The loaded code of the examples: the entry at offset 64 returns 42, the entry at
  offset 128 loops for ever.
\<close>

definition example_call :: "unit execution_engine \<Rightarrow> u32 \<Rightarrow> u64 option" where
  "example_call eng off = (if off = 64 then Some 42 else None)"

definition example_env :: "u32 \<Rightarrow> u32 \<Rightarrow> unit run_env" where
  "example_env off params =
     \<lparr>copied_request = Some \<lparr>entry_offset = off, param_count = params\<rparr>,
      kthread_create_succeeds = True, ee_call0 = example_call, fault_exit_code = 11,
      set_memory_nx_succeeds = True, set_memory_x_succeeds = True\<rparr>"

text \<open>
  Three schedules. In \<open>normal_schedule\<close> the runner works to its end before the
  controller waits. In \<open>forced_schedule\<close> a signal interrupts the wait for the second
  release while the runner is inside \<open>ee_call0\<close>. In \<open>racing_schedule\<close> the signal
  interrupts the wait, and the runner then returns from the call and releases the
  semaphore before the page protection changes.
\<close>

definition normal_schedule :: "action list" where
  "normal_schedule =
     [Controller, Controller, Controller, Controller, Controller,
      Runner, Runner, Runner, Runner, Runner, Runner, Runner,
      Controller, Controller, Controller, Controller, Controller, Controller, Controller]"

definition forced_schedule :: "action list" where
  "forced_schedule =
     [Controller, Controller, Controller, Controller, Controller,
      Runner, Runner, Runner, Controller, Signal, Controller, Controller,
      Runner, Controller, Controller, Controller, Controller, Controller]"

definition racing_schedule :: "action list" where
  "racing_schedule =
     [Controller, Controller, Controller, Controller, Controller,
      Runner, Runner, Runner, Controller, Signal, Controller,
      Runner, Runner, Runner, Runner,
      Controller, Controller, Controller, Controller, Controller, Controller, Controller]"

text \<open>
  The page protection of the examples: the two pages of the code buffer, \<open>0x40\<close> and
  \<open>0x41\<close>, are executable and no other page is.
\<close>

definition example_prot :: page_prot where
  "example_prot p \<longleftrightarrow> p = 0x40 \<or> p = 0x41"

text \<open>
  A run of the example session, a request for the entry at \<open>off\<close> with \<open>n\<close> parameters,
  and a frame in which \<open>task.sem\<close> and \<open>task.ret\<close> start as 7 and 99.
\<close>

definition example_run :: "u32 \<Rightarrow> u32 \<Rightarrow> action list \<Rightarrow> unit run_state" where
  "example_run off n sched =
     handle_wasm_run_code (example_env off n) example_session example_prot 7 99 sched"

text \<open>The same run when the kernel fails to make the code buffer executable again.\<close>

definition example_run_x_fails :: "u32 \<Rightarrow> u32 \<Rightarrow> action list \<Rightarrow> unit run_state" where
  "example_run_x_fails off n sched =
     handle_wasm_run_code ((example_env off n)\<lparr>set_memory_x_succeeds := False\<rparr>)
       example_session example_prot 7 99 sched"

section \<open>Word arithmetic\<close>

lemma unat_u32_bound: "unat (w :: u32) < 2 ^ 32"
  using unsigned_less[of w] by simp

lemma unat_u64_bound: "unat (w :: u64) < 2 ^ 64"
  using unsigned_less[of w] by simp

lemma unat_ucast_u32: "unat (ucast (w :: u32) :: u64) = unat w"
  using unat_u32_bound[of w]
  by (simp add: unsigned_ucast_eq take_bit_nat_eq_self_iff)

lemma and_not_mask12: "(w :: u64) AND NOT (mask 12) = push_bit 12 (drop_bit 12 w)"
  by (rule bit_eqI) (auto simp: bit_simps)

lemma and_not_4095: "(w :: u64) AND NOT 4095 = push_bit 12 (drop_bit 12 w)"
proof -
  have "(4095 :: u64) = mask 12" by (simp add: mask_eq_exp_minus_1)
  then show ?thesis using and_not_mask12[of w] by simp
qed

lemma unat_and_not_4095: "unat ((w :: u64) AND NOT 4095) = unat w div 4096 * 4096"
proof -
  have le: "unat w div 4096 * 4096 \<le> unat w" by simp
  have "unat (push_bit 12 (drop_bit 12 w)) = (unat (drop_bit 12 w) * 4096) mod 2 ^ 64"
    by (simp add: push_bit_eq_mult unat_word_ariths)
  also have "\<dots> = (unat w div 4096 * 4096) mod 2 ^ 64"
    by (simp add: unat_drop_bit_eq drop_bit_eq_div unat_div)
  also have "\<dots> = unat w div 4096 * 4096"
    using le unat_u64_bound[of w] by simp
  finally show ?thesis by (simp only: and_not_4095)
qed

section \<open>Page rounding\<close>

lemma unat_round_up:
  assumes "x \<le> 0xFFFFFFFFFFFFF000"
  shows "unat (round_up_to_page_size x) = (unat x + 4095) div 4096 * 4096"
proof -
  from assms have "unat x \<le> 0xFFFFFFFFFFFFF000" by (simp add: word_le_nat_alt)
  then have "unat (x + 4095) = unat x + 4095"
    by (simp add: unat_word_ariths)
  then show ?thesis by (simp only: round_up_to_page_size_def unat_and_not_4095)
qed

lemma round_up_nat_ge: "(n::nat) \<le> (n + 4095) div 4096 * 4096"
  by arith

lemma round_up_nat_lt: "(n + 4095) div 4096 * 4096 < (n::nat) + 4096"
  by arith

lemma round_up_nat_least:
  assumes "4096 dvd (m::nat)" "n \<le> m"
  shows "(n + 4095) div 4096 * 4096 \<le> m"
proof -
  from assms(1) obtain k where k: "m = 4096 * k" by (auto simp: dvd_def)
  with assms(2) have "(n + 4095) div 4096 \<le> k" by arith
  then show ?thesis using k by simp
qed

text \<open>
  C10. For every \<open>unsigned long\<close> \<open>x\<close> with \<open>x \<le> ULONG_MAX - 4095\<close> (that is,
  \<open>x \<le> 0xFFFFFFFFFFFFF000\<close>), \<open>round_up_to_page_size x\<close> is the least multiple of 4096
  that is at least \<open>x\<close>: it is divisible by 4096, it is \<open>\<ge> x\<close>, it is \<open>< x + 4096\<close>, and
  no smaller multiple of 4096 is \<open>\<ge> x\<close>.
\<close>

theorem round_up_to_page_size_least_multiple:
  assumes "x \<le> 0xFFFFFFFFFFFFF000"
  shows "4096 dvd unat (round_up_to_page_size x)
       \<and> unat x \<le> unat (round_up_to_page_size x)
       \<and> unat (round_up_to_page_size x) < unat x + 4096
       \<and> (\<forall>m. 4096 dvd m \<and> unat x \<le> m \<longrightarrow> unat (round_up_to_page_size x) \<le> m)"
proof -
  let ?r = "unat (round_up_to_page_size x)"
  have r: "?r = (unat x + 4095) div 4096 * 4096" by (rule unat_round_up[OF assms])
  have d: "4096 dvd ?r" by (simp add: r)
  have ge: "unat x \<le> ?r" unfolding r by (rule round_up_nat_ge)
  have lt: "?r < unat x + 4096" unfolding r by (rule round_up_nat_lt)
  have least: "?r \<le> m" if "4096 dvd m" "unat x \<le> m" for m
    using that unfolding r by (rule round_up_nat_least)
  from d ge lt least show ?thesis by blast
qed

theorem round_up_to_page_size_least_multiple_witness:
  "(5000 :: u64) \<le> 0xFFFFFFFFFFFFF000 \<and> round_up_to_page_size 5000 = 8192
     \<and> 4096 dvd unat (round_up_to_page_size 5000)
     \<and> unat (5000 :: u64) \<le> unat (round_up_to_page_size 5000)
     \<and> unat (round_up_to_page_size 5000) < unat (5000 :: u64) + 4096"
  using round_up_to_page_size_least_multiple[of 5000]
  by (simp add: round_up_to_page_size_def)

section \<open>The checked memory slice\<close>

lemma memory_of_SomeD:
  assumes "memory_of h vctx = Some mem"
  shows "memories vctx \<noteq> NULL
       \<and> (\<exists>mp. local_memory_ptr_at h (memories vctx) = Some mp \<and> local_memory_at h mp = Some mem)"
  using assms by (auto simp: memory_of_def split: if_splits option.splits)

text \<open>
  The four comparisons of the source, read as natural numbers: the range is accepted
  exactly when \<open>base + bound\<close> does not wrap, \<open>offset + len \<le> bound\<close> and
  \<open>offset < bound\<close>.
\<close>

lemma slice_check_nat:
  fixes b n :: u64 and off len :: u32
  shows "(\<not> (b + ucast off + ucast len < b + ucast off \<or> b + ucast off < b
            \<or> b + ucast off \<ge> b + n \<or> b + ucast off + ucast len > b + n))
         \<longleftrightarrow> (unat b + unat n < 2 ^ 64 \<and> unat off + unat len \<le> unat n \<and> unat off < unat n)"
proof -
  define B N O' L where "B = unat b" and "N = unat n" and "O' = unat off" and "L = unat len"
  have bnd: "B < 2 ^ 64" "N < 2 ^ 64" "O' < 2 ^ 32" "L < 2 ^ 32"
    using unat_u64_bound[of b] unat_u64_bound[of n] unat_u32_bound[of off] unat_u32_bound[of len]
    by (simp_all add: B_def N_def O'_def L_def)
  have beg: "unat (b + ucast off) = (if B + O' < 2 ^ 64 then B + O' else B + O' - 2 ^ 64)"
    by (simp add: unat_plus_if' unat_ucast_u32 B_def O'_def)
  have en: "unat (b + ucast off + ucast len)
      = (if unat (b + ucast off) + L < 2 ^ 64 then unat (b + ucast off) + L
         else unat (b + ucast off) + L - 2 ^ 64)"
    by (simp add: unat_plus_if'[of "b + ucast off"] unat_ucast_u32 L_def)
  have re: "unat (b + n) = (if B + N < 2 ^ 64 then B + N else B + N - 2 ^ 64)"
    by (simp add: unat_plus_if' B_def N_def)
  show ?thesis
    unfolding word_less_nat_alt word_le_nat_alt en re beg
    unfolding B_def[symmetric] N_def[symmetric] O'_def[symmetric] L_def[symmetric]
    using bnd by (auto split: if_splits)
qed

lemma slice_value:
  assumes "memory_of h vctx = Some mem"
  shows "vmctx_get_memory_slice h vctx off len
         = Some (if unat (lm_base mem) + unat (lm_bound mem) < 2 ^ 64
                    \<and> unat off + unat len \<le> unat (lm_bound mem) \<and> unat off < unat (lm_bound mem)
                 then lm_base mem + ucast off else NULL)"
proof -
  from memory_of_SomeD[OF assms] obtain mp where
    m: "memories vctx \<noteq> NULL" "local_memory_ptr_at h (memories vctx) = Some mp"
       "local_memory_at h mp = Some mem" by blast
  show ?thesis
    unfolding vmctx_get_memory_slice_def
    using m slice_check_nat[of "lm_base mem" off len "lm_bound mem"]
    by (auto simp: Let_def)
qed

lemma slice_null_memories:
  "memories vctx = NULL \<Longrightarrow> vmctx_get_memory_slice h vctx off len = Some NULL"
  by (simp add: vmctx_get_memory_slice_def)

lemma slice_Some_memory_of:
  assumes "vmctx_get_memory_slice h vctx off len = Some p" and "p \<noteq> NULL"
  shows "\<exists>mem. memory_of h vctx = Some mem"
  using assms
  by (auto simp: vmctx_get_memory_slice_def memory_of_def split: if_splits option.splits)

lemma unat_base_plus_offset:
  fixes b n :: u64 and off :: u32
  assumes "unat b + unat n < 2 ^ 64" and "unat off < unat n"
  shows "unat (b + ucast off) = unat b + unat off"
  using assms by (simp add: unat_plus_if' unat_ucast_u32)

text \<open>
  C1, as amended. For a context whose memory list is readable and whose region is valid,
  and for all \<open>uint32_t\<close> pairs \<open>(offset, len)\<close>, \<open>vmctx_get_memory_slice\<close> returns a
  non-null pointer if and only if \<open>offset + len \<le> bound\<close> (the sum taken without
  overflow) and \<open>offset < bound\<close>. In particular a range with \<open>offset + len = bound\<close>
  and \<open>len \<ge> 1\<close> succeeds, and one with \<open>offset + len = bound + 1\<close> returns null.
\<close>

theorem vmctx_get_memory_slice_succeeds_iff:
  assumes "memory_of h vctx = Some mem" and "valid_local_memory mem"
  shows "((\<exists>p. vmctx_get_memory_slice h vctx off len = Some p \<and> p \<noteq> NULL)
            \<longleftrightarrow> unat off + unat len \<le> unat (lm_bound mem) \<and> unat off < unat (lm_bound mem))
       \<and> (unat off + unat len = unat (lm_bound mem) \<and> 0 < unat len
            \<longrightarrow> (\<exists>p. vmctx_get_memory_slice h vctx off len = Some p \<and> p \<noteq> NULL))
       \<and> (unat off + unat len = unat (lm_bound mem) + 1
            \<longrightarrow> vmctx_get_memory_slice h vctx off len = Some NULL)"
proof -
  from assms(2) have base: "lm_base mem \<noteq> 0"
    and nowrap: "unat (lm_base mem) + unat (lm_bound mem) < 2 ^ 64"
    by (simp_all add: valid_local_memory_def NULL_def)
  have nonnull: "lm_base mem + ucast off \<noteq> NULL" if "unat off < unat (lm_bound mem)"
  proof
    assume "lm_base mem + ucast off = NULL"
    then have "unat (lm_base mem + ucast off) = 0" by (simp add: NULL_def)
    with unat_base_plus_offset[OF nowrap that] have "unat (lm_base mem) = 0" by simp
    with base show False by (simp add: unat_eq_0)
  qed
  have iff: "(\<exists>p. vmctx_get_memory_slice h vctx off len = Some p \<and> p \<noteq> NULL)
      \<longleftrightarrow> unat off + unat len \<le> unat (lm_bound mem) \<and> unat off < unat (lm_bound mem)"
    using nowrap nonnull by (simp add: slice_value[OF assms(1)])
  have at_bound: "\<exists>p. vmctx_get_memory_slice h vctx off len = Some p \<and> p \<noteq> NULL"
    if "unat off + unat len = unat (lm_bound mem)" "0 < unat len"
    using that iff by simp
  have past_bound: "vmctx_get_memory_slice h vctx off len = Some NULL"
    if "unat off + unat len = unat (lm_bound mem) + 1"
    using that by (simp add: slice_value[OF assms(1)])
  from iff at_bound past_bound show ?thesis by blast
qed

theorem vmctx_get_memory_slice_succeeds_iff_witness:
  "memory_of example_heap example_ctx = Some example_mem \<and> valid_local_memory example_mem
   \<and> unat (12 :: u32) + unat (4 :: u32) = unat (lm_bound example_mem) \<and> 0 < unat (4 :: u32)
   \<and> vmctx_get_memory_slice example_heap example_ctx 12 4 = Some 0x100C
   \<and> unat (12 :: u32) + unat (5 :: u32) = unat (lm_bound example_mem) + 1
   \<and> vmctx_get_memory_slice example_heap example_ctx 12 5 = Some NULL"
proof -
  have m: "memory_of example_heap example_ctx = Some example_mem"
    by (simp add: memory_of_def example_heap_def example_ctx_def NULL_def)
  have v: "valid_local_memory example_mem"
    by (simp add: valid_local_memory_def example_mem_def NULL_def)
  have e: "vmctx_get_memory_slice example_heap example_ctx 12 4 = Some 0x100C"
    by (simp add: vmctx_get_memory_slice_def example_heap_def example_ctx_def example_mem_def
        NULL_def)
  show ?thesis
    using m v e vmctx_get_memory_slice_succeeds_iff[OF m v, of 12 5]
      vmctx_get_memory_slice_succeeds_iff[OF m v, of 12 4]
    by (simp add: example_mem_def)
qed

text \<open>
  C1, as stated, fails for the empty range at the end of the region: with \<open>bound = 16\<close>,
  \<open>offset = 16\<close> and \<open>len = 0\<close> the sum \<open>offset + len\<close> is \<open>\<le> bound\<close>, yet the guard
  \<open>begin >= real_end\<close> of the source rejects the range and null is returned.
\<close>

theorem vmctx_get_memory_slice_empty_at_bound_fails:
  "memory_of example_heap example_ctx = Some example_mem \<and> valid_local_memory example_mem
   \<and> unat (16 :: u32) + unat (0 :: u32) \<le> unat (lm_bound example_mem)
   \<and> vmctx_get_memory_slice example_heap example_ctx 16 0 = Some NULL"
  by (simp add: vmctx_get_memory_slice_def memory_of_def valid_local_memory_def
      example_heap_def example_ctx_def example_mem_def NULL_def)

text \<open>
  C9. \<open>vmctx_get_memory_slice\<close> returns null for every context whose \<open>memories\<close> field is
  null, without reading the heap; it returns a value whenever the memory list is
  readable; and whenever it returns a non-null pointer \<open>p\<close>, then \<open>p\<close> is
  \<open>mem->base + offset\<close> (without wrap-around) and the range \<open>[p, p + len)\<close> lies within
  \<open>[mem->base, mem->base + mem->bound)\<close>.
\<close>

theorem vmctx_get_memory_slice_safe:
  "(memories vctx = NULL \<longrightarrow> vmctx_get_memory_slice h vctx off len = Some NULL)
   \<and> (memory_of h vctx \<noteq> None \<longrightarrow> vmctx_get_memory_slice h vctx off len \<noteq> None)
   \<and> (\<forall>p. vmctx_get_memory_slice h vctx off len = Some p \<and> p \<noteq> NULL \<longrightarrow>
         (\<exists>mem. memory_of h vctx = Some mem
            \<and> p = lm_base mem + ucast off
            \<and> unat p = unat (lm_base mem) + unat off
            \<and> unat p + unat len \<le> unat (lm_base mem) + unat (lm_bound mem)))"
proof -
  have in_range: "\<exists>mem. memory_of h vctx = Some mem
            \<and> p = lm_base mem + ucast off
            \<and> unat p = unat (lm_base mem) + unat off
            \<and> unat p + unat len \<le> unat (lm_base mem) + unat (lm_bound mem)"
    if r: "vmctx_get_memory_slice h vctx off len = Some p" and p: "p \<noteq> NULL" for p
  proof -
    from slice_Some_memory_of[OF r p] obtain mem where m: "memory_of h vctx = Some mem" ..
    from r p have acc: "unat (lm_base mem) + unat (lm_bound mem) < 2 ^ 64"
        "unat off + unat len \<le> unat (lm_bound mem)" "unat off < unat (lm_bound mem)"
      and pv: "p = lm_base mem + ucast off"
      by (auto simp: slice_value[OF m] split: if_splits)
    from unat_base_plus_offset[OF acc(1) acc(3)] pv
    have "unat p = unat (lm_base mem) + unat off" by simp
    with acc(2) m pv show ?thesis by simp
  qed
  have total: "vmctx_get_memory_slice h vctx off len \<noteq> None" if "memory_of h vctx \<noteq> None"
    using that by (auto simp: slice_value)
  from slice_null_memories[of vctx h off len] total in_range show ?thesis by blast
qed

theorem vmctx_get_memory_slice_safe_witness:
  "memories (example_ctx\<lparr>memories := NULL\<rparr>) = NULL
   \<and> vmctx_get_memory_slice example_heap (example_ctx\<lparr>memories := NULL\<rparr>) 0 1 = Some NULL
   \<and> memory_of example_heap example_ctx \<noteq> None
   \<and> vmctx_get_memory_slice example_heap example_ctx 12 4 = Some 0x100C \<and> (0x100C :: ptr) \<noteq> NULL
   \<and> (\<exists>mem. memory_of example_heap example_ctx = Some mem
            \<and> (0x100C :: ptr) = lm_base mem + ucast (12 :: u32)
            \<and> unat (0x100C :: ptr) = unat (lm_base mem) + unat (12 :: u32)
            \<and> unat (0x100C :: ptr) + unat (4 :: u32) \<le> unat (lm_base mem) + unat (lm_bound mem))"
proof -
  have e: "vmctx_get_memory_slice example_heap example_ctx 12 4 = Some 0x100C"
    by (simp add: vmctx_get_memory_slice_def example_heap_def example_ctx_def example_mem_def
        NULL_def)
  have n: "(0x100C :: ptr) \<noteq> NULL" by (simp add: NULL_def)
  have m: "memory_of example_heap example_ctx \<noteq> None"
    by (simp add: memory_of_def example_heap_def example_ctx_def NULL_def)
  have z: "vmctx_get_memory_slice example_heap (example_ctx\<lparr>memories := NULL\<rparr>) 0 1 = Some NULL"
    by (simp add: vmctx_get_memory_slice_def)
  from vmctx_get_memory_slice_safe[of example_ctx example_heap 12 4] e n m z
  show ?thesis by simp
qed

section \<open>Loading code\<close>

lemma sint_scast_int: "sint (scast (w :: 32 word) :: 64 word) = sint w"
  by (rule sint_up_scast) (simp add: is_up)

text \<open>
  C6. For every session in the Ready state (\<open>ready\<close> nonzero), a load operation fails:
  it returns \<open>-EINVAL\<close>, the code's error for a session that is already loaded, before
  the request is copied or the engine is initialised, and the session, with every field
  of its engine and its \<open>ready\<close> flag, is unchanged.
\<close>

theorem handle_wasm_load_code_already_loaded:
  assumes "ready sess \<noteq> 0"
  shows "handle_wasm_load_code copy_from_user init_execution_engine sess arg
           = (scast (- EINVAL), sess)
       \<and> sint (fst (handle_wasm_load_code copy_from_user init_execution_engine sess arg)) = - 22
       \<and> ee (snd (handle_wasm_load_code copy_from_user init_execution_engine sess arg)) = ee sess
       \<and> ready (snd (handle_wasm_load_code copy_from_user init_execution_engine sess arg))
           = ready sess"
  using assms by (simp add: handle_wasm_load_code_def EINVAL_def)

theorem handle_wasm_load_code_already_loaded_witness:
  "ready example_session \<noteq> 0
   \<and> handle_wasm_load_code (\<lambda>a. Some ()) (\<lambda>q eng. (0, eng\<lparr>code := 0\<rparr>)) example_session 0
       = (scast (- EINVAL), example_session)
   \<and> sint (fst (handle_wasm_load_code (\<lambda>a. Some ()) (\<lambda>q eng. (0, eng\<lparr>code := 0\<rparr>))
         example_session 0)) = - 22"
  using handle_wasm_load_code_already_loaded[of example_session "\<lambda>a. Some ()"
      "\<lambda>q eng. (0, eng\<lparr>code := 0\<rparr>)" 0]
  by (simp add: example_session_def EINVAL_def)

text \<open>
  C7. On a session in the Unloaded state (\<open>ready = 0\<close>): when the copy of the request
  fails the load returns \<open>-EFAULT\<close> and the session is unchanged; when
  \<open>init_execution_engine\<close> returns a negative value the load returns that negative value
  and \<open>ready\<close> stays 0; the session becomes Ready if and only if the copy succeeds and
  \<open>init_execution_engine\<close> returns a non-negative value; \<open>ready\<close> stays 0 exactly when an
  error (a negative value) is returned; and after a failed load a further load whose
  copy and initialisation succeed returns 0 and makes the session Ready.
\<close>

theorem handle_wasm_load_code_failure_keeps_unloaded:
  assumes "ready sess = 0"
  shows "(copy_from_user arg = None \<longrightarrow>
            handle_wasm_load_code copy_from_user init_execution_engine sess arg
              = (scast (- EFAULT), sess))
       \<and> (\<forall>q. copy_from_user arg = Some q
              \<and> sint (fst (init_execution_engine q (ee sess))) < 0 \<longrightarrow>
            sint (fst (handle_wasm_load_code copy_from_user init_execution_engine sess arg)) < 0
            \<and> ready (snd (handle_wasm_load_code copy_from_user init_execution_engine sess arg))
                = 0)
       \<and> (ready (snd (handle_wasm_load_code copy_from_user init_execution_engine sess arg)) \<noteq> 0
            \<longleftrightarrow> (\<exists>q. copy_from_user arg = Some q
                  \<and> 0 \<le> sint (fst (init_execution_engine q (ee sess)))))
       \<and> (ready (snd (handle_wasm_load_code copy_from_user init_execution_engine sess arg)) = 0
            \<longleftrightarrow> sint (fst (handle_wasm_load_code copy_from_user init_execution_engine sess arg))
                  < 0)
       \<and> (\<forall>copy2 init2 arg2 q2.
             ready (snd (handle_wasm_load_code copy_from_user init_execution_engine sess arg)) = 0
             \<and> copy2 arg2 = Some q2
             \<and> 0 \<le> sint (fst (init2 q2
                   (ee (snd (handle_wasm_load_code copy_from_user init_execution_engine sess
                       arg))))) \<longrightarrow>
             fst (handle_wasm_load_code copy2 init2
                   (snd (handle_wasm_load_code copy_from_user init_execution_engine sess arg))
                   arg2) = 0
             \<and> ready (snd (handle_wasm_load_code copy2 init2
                   (snd (handle_wasm_load_code copy_from_user init_execution_engine sess arg))
                   arg2)) = 1)"
proof -
  let ?res = "handle_wasm_load_code copy_from_user init_execution_engine sess arg"
  have copy_fails: "copy_from_user arg = None \<longrightarrow> ?res = (scast (- EFAULT), sess)"
    using assms by (simp add: handle_wasm_load_code_def)
  have init_fails: "\<forall>q. copy_from_user arg = Some q
      \<and> sint (fst (init_execution_engine q (ee sess))) < 0 \<longrightarrow>
        sint (fst ?res) < 0 \<and> ready (snd ?res) = 0"
    using assms
    by (auto simp: handle_wasm_load_code_def sint_scast_int split: prod.splits)
  have becomes_ready: "ready (snd ?res) \<noteq> 0
      \<longleftrightarrow> (\<exists>q. copy_from_user arg = Some q
             \<and> 0 \<le> sint (fst (init_execution_engine q (ee sess))))"
    using assms
    by (auto simp: handle_wasm_load_code_def split: option.splits prod.splits)
  have error_iff: "ready (snd ?res) = 0 \<longleftrightarrow> sint (fst ?res) < 0"
    using assms
    by (auto simp: handle_wasm_load_code_def sint_scast_int EFAULT_def
        split: option.splits prod.splits)
  have retry: "\<forall>copy2 init2 arg2 q2.
      ready (snd ?res) = 0 \<and> copy2 arg2 = Some q2
      \<and> 0 \<le> sint (fst (init2 q2 (ee (snd ?res)))) \<longrightarrow>
        fst (handle_wasm_load_code copy2 init2 (snd ?res) arg2) = 0
        \<and> ready (snd (handle_wasm_load_code copy2 init2 (snd ?res) arg2)) = 1"
    by (auto simp: handle_wasm_load_code_def[of _ _ "snd ?res"] split: prod.splits)
  from copy_fails init_fails becomes_ready error_iff retry show ?thesis by blast
qed

theorem handle_wasm_load_code_failure_keeps_unloaded_witness:
  "ready (init_privileged_session example_session) = 0
   \<and> handle_wasm_load_code (\<lambda>a. None :: unit option) (\<lambda>q eng. (0, eng))
         (init_privileged_session example_session) 0
       = (scast (- EFAULT), init_privileged_session example_session)
   \<and> sint (fst (handle_wasm_load_code (\<lambda>a. Some ()) (\<lambda>q eng. (- 12, eng))
         (init_privileged_session example_session) 0)) < 0
   \<and> ready (snd (handle_wasm_load_code (\<lambda>a. Some ()) (\<lambda>q eng. (- 12, eng))
         (init_privileged_session example_session) 0)) = 0
   \<and> ready (snd (handle_wasm_load_code (\<lambda>a. Some ()) (\<lambda>q eng. (0, eng))
         (init_privileged_session example_session) 0)) \<noteq> 0"
proof -
  have fresh: "ready (init_privileged_session example_session) = 0"
    by (simp add: init_privileged_session_def)
  note copy_none = handle_wasm_load_code_failure_keeps_unloaded[OF fresh,
      of "\<lambda>a. None :: unit option" 0 "\<lambda>q eng. (0, eng)", THEN conjunct1]
  note init_neg = handle_wasm_load_code_failure_keeps_unloaded[OF fresh,
      of "\<lambda>a. Some ()" 0 "\<lambda>q eng. (- 12, eng)", THEN conjunct2, THEN conjunct1]
  note init_ok = handle_wasm_load_code_failure_keeps_unloaded[OF fresh,
      of "\<lambda>a. Some ()" 0 "\<lambda>q eng. (0, eng)", THEN conjunct2, THEN conjunct2, THEN conjunct1]
  have copy_fails: "handle_wasm_load_code (\<lambda>a. None :: unit option) (\<lambda>q eng. (0, eng))
         (init_privileged_session example_session) 0
       = (scast (- EFAULT), init_privileged_session example_session)"
    using copy_none by simp
  have init_fails: "sint (fst (handle_wasm_load_code (\<lambda>a. Some ()) (\<lambda>q eng. (- 12, eng))
         (init_privileged_session example_session) 0)) < 0
     \<and> ready (snd (handle_wasm_load_code (\<lambda>a. Some ()) (\<lambda>q eng. (- 12, eng))
         (init_privileged_session example_session) 0)) = 0"
    using init_neg by simp
  have succeeds: "ready (snd (handle_wasm_load_code (\<lambda>a. Some ()) (\<lambda>q eng. (0, eng))
         (init_privileged_session example_session) 0)) \<noteq> 0"
    using init_ok by simp
  from fresh copy_fails init_fails[THEN conjunct1] init_fails[THEN conjunct2] succeeds
  show ?thesis by (intro conjI)
qed

section \<open>Running code: the invariants hold along every schedule\<close>

lemmas run_inv_defs = run_inv_def ctl_inv_def runner_inv_def runner_finished_def before_nx_def
  after_stop_def ups_def prot_stopped_def prot_restored_def

lemma run_inv_entry: "run_inv env sess x jr r (run_entry sess x js jr)"
  by (simp add: run_inv_def ctl_inv_def runner_inv_def before_nx_def run_entry_def)

lemma run_inv_signal:
  "run_inv env sess x jr r s \<Longrightarrow> run_inv env sess x jr r (s\<lparr>signal_pending := True\<rparr>)"
  by (auto simp: run_inv_def ctl_inv_def runner_inv_def runner_finished_def before_nx_def
      after_stop_def split: ctl_pc.splits runner_pc.splits)

lemma run_inv_controller:
  assumes "copied_request env = Some r" and "run_inv env sess x jr r s"
  shows "run_inv env sess x jr r (handle_wasm_run_code_step env s)"
proof (cases "cpc s")
  case C_kthread_stop
  with assms show ?thesis
    by (cases "rpc s")
       (auto simp: run_inv_def ctl_inv_def runner_inv_def runner_finished_def before_nx_def
          after_stop_def handle_wasm_run_code_step_def ups_def)
next
  case C_report
  with assms show ?thesis
    by (auto simp: run_inv_def ctl_inv_def runner_inv_def runner_finished_def before_nx_def
          after_stop_def handle_wasm_run_code_step_def ups_def)
qed (use assms in \<open>auto simp: run_inv_defs handle_wasm_run_code_step_def
      split: runner_pc.splits\<close>)

lemma run_inv_runner:
  assumes "copied_request env = Some r" and "run_inv env sess x jr r s"
  shows "run_inv env sess x jr r (code_runner_step env s)"
proof (cases "rpc s")
  case R_none
  with assms show ?thesis by (simp add: code_runner_step_def)
next
  case R_created
  with assms show ?thesis by (simp add: code_runner_step_def)
next
  case (R_exited c)
  with assms show ?thesis by (simp add: code_runner_step_def)
next
  case R_code_runner
  with assms show ?thesis
    by (cases "cpc s") (auto simp: run_inv_defs code_runner_step_def)
next
  case R_up_started
  with assms show ?thesis
    by (cases "cpc s") (auto simp: run_inv_defs code_runner_step_def)
next
  case R_check_params
  with assms show ?thesis
    by (cases "cpc s") (auto simp: run_inv_defs code_runner_step_def)
next
  case (R_call off)
  with assms show ?thesis
    by (cases "cpc s") (auto simp: run_inv_defs code_runner_step_def split: option.splits)
next
  case (R_store v)
  with assms show ?thesis
    by (cases "cpc s") (auto simp: run_inv_defs code_runner_step_def)
next
  case R_up_finished
  with assms show ?thesis
    by (cases "cpc s") (auto simp: run_inv_defs code_runner_step_def)
next
  case R_inner_done
  with assms show ?thesis
    by (cases "cpc s") (auto simp: run_inv_defs code_runner_step_def)
qed

lemma run_inv_step:
  assumes "copied_request env = Some r" and "run_inv env sess x jr r s"
  shows "run_inv env sess x jr r (step env a s)"
  using assms
  by (cases a) (simp_all add: step_def run_inv_controller run_inv_runner run_inv_signal)

lemma run_inv_schedule:
  assumes "copied_request env = Some r"
  shows "run_inv env sess x jr r s \<Longrightarrow> run_inv env sess x jr r (run_schedule env sched s)"
  by (induction sched arbitrary: s) (simp_all add: run_inv_step[OF assms])

lemma run_inv_run:
  assumes "copied_request env = Some r"
  shows "run_inv env sess x jr r (handle_wasm_run_code env sess x js jr sched)"
  unfolding handle_wasm_run_code_def
  by (rule run_inv_schedule[OF assms run_inv_entry])

lemma no_request_step:
  assumes "copied_request env = None" and "no_request_inv sess x s"
  shows "no_request_inv sess x (step env a s)"
proof -
  from assms(2) have r: "rpc s = R_none"
    and c: "cpc s = C_copy_from_user \<or> cpc s = C_failed"
    by (auto simp: no_request_inv_def)
  show ?thesis
  proof (cases a)
    case Controller
    from c show ?thesis
    proof
      assume "cpc s = C_copy_from_user"
      with assms Controller show ?thesis
        by (simp add: no_request_inv_def step_def handle_wasm_run_code_step_def)
    next
      assume "cpc s = C_failed"
      with assms Controller show ?thesis
        by (simp add: no_request_inv_def step_def handle_wasm_run_code_step_def)
    qed
  next
    case Runner
    with assms r show ?thesis by (simp add: step_def code_runner_step_def)
  next
    case Signal
    with assms show ?thesis by (simp add: no_request_inv_def step_def)
  qed
qed

lemma no_request_schedule:
  assumes "copied_request env = None"
  shows "no_request_inv sess x s \<Longrightarrow> no_request_inv sess x (run_schedule env sched s)"
  by (induction sched arbitrary: s) (simp_all add: no_request_step[OF assms])

lemma no_request_run:
  assumes "copied_request env = None"
  shows "no_request_inv sess x (handle_wasm_run_code env sess x js jr sched)"
  unfolding handle_wasm_run_code_def
  by (rule no_request_schedule[OF assms]) (simp add: no_request_inv_def run_entry_def)

lemma run_cases:
  obtains (no_request) "copied_request env = None"
      "no_request_inv sess x (handle_wasm_run_code env sess x js jr sched)"
    | (request) r where "copied_request env = Some r"
      "run_inv env sess x jr r (handle_wasm_run_code env sess x js jr sched)"
  using no_request_run[of env sess x js jr sched] run_inv_run[of env _ sess x jr js sched]
  by (cases "copied_request env") auto

lemma run_returned_value:
  assumes "run_inv env sess x jr r s" and "cpc s = C_returned"
  shows "retval s = Some 0"
  using assms by (simp add: run_inv_def ctl_inv_def)


section \<open>Running code: runs without a signal\<close>













lemma runner_keeps_cpc: "cpc (code_runner_step env s) = cpc s"
  by (cases "rpc s") (simp_all add: code_runner_step_def split: option.splits)




lemmas waiting_defs = waiting_inv_def before_stop_def run_inv_defs

lemma waiting_inv_entry: "waiting_inv env sess prot jr r (run_entry sess prot js jr)"
  by (simp add: waiting_inv_def run_inv_entry) (simp add: run_entry_def before_stop_def)

lemma waiting_inv_controller:
  assumes "copied_request env = Some r" and "param_count r \<noteq> 0"
    and "waiting_inv env sess prot jr r s"
  shows "waiting_inv env sess prot jr r (handle_wasm_run_code_step env s)"
proof -
  from assms(3) have inv: "run_inv env sess prot jr r s" by (simp add: waiting_inv_def)
  note inv' = run_inv_controller[OF assms(1) inv]
  show ?thesis
  proof (cases "cpc s")
    case C_down_finished
    with assms inv' show ?thesis
      by (cases "rpc s") (auto simp: waiting_defs handle_wasm_run_code_step_def)
  qed (use assms inv' in \<open>auto simp: waiting_defs handle_wasm_run_code_step_def\<close>)
qed

lemma waiting_inv_runner:
  assumes "copied_request env = Some r" and "waiting_inv env sess prot jr r s"
  shows "waiting_inv env sess prot jr r (code_runner_step env s)"
proof -
  from assms(2) have inv: "run_inv env sess prot jr r s" by (simp add: waiting_inv_def)
  from run_inv_runner[OF assms(1) inv] assms(2) show ?thesis
    by (simp add: waiting_inv_def runner_keeps_cpc)
       (cases "rpc s"; simp add: code_runner_step_def split: option.splits)
qed

lemma waiting_inv_schedule:
  assumes "copied_request env = Some r" and "param_count r \<noteq> 0"
  shows "Signal \<notin> set sched \<Longrightarrow> waiting_inv env sess prot jr r s
     \<Longrightarrow> waiting_inv env sess prot jr r (run_schedule env sched s)"
proof (induction sched arbitrary: s)
  case Nil
  then show ?case by simp
next
  case (Cons a sched)
  from Cons.prems(1) have a: "a \<noteq> Signal" and rest: "Signal \<notin> set sched" by auto
  from a Cons.prems(2) waiting_inv_controller[OF assms] waiting_inv_runner[OF assms(1)]
  have "waiting_inv env sess prot jr r (step env a s)"
    by (cases a) (simp_all add: step_def)
  from Cons.IH[OF rest this] show ?case by simp
qed

lemma waiting_not_returned:
  assumes "waiting_inv env sess prot jr r s"
  shows "cpc s \<noteq> C_returned \<and> (cpc s \<noteq> C_failed \<longrightarrow> retval s = None)"
  using assms by (cases "cpc s") (auto simp: waiting_defs)

section \<open>Running code: concrete runs\<close>

lemmas run_eval = example_run_def example_run_x_fails_def handle_wasm_run_code_def run_entry_def
  step_def handle_wasm_run_code_step_def code_runner_step_def example_env_def example_session_def
  example_call_def example_engine_def example_prot_def fetch_page_def
  ee_make_code_nx_def ee_make_code_x_def set_memory_nx_def set_memory_x_def page_in_range_def
  round_up_to_page_size_def EINVAL_def EFAULT_def

lemma example_env_fields:
  "copied_request (example_env off n) = Some \<lparr>entry_offset = off, param_count = n\<rparr>"
  "ee_call0 (example_env off n) = example_call"
  "kthread_create_succeeds (example_env off n)"
  "set_memory_nx_succeeds (example_env off n)"
  "set_memory_x_succeeds (example_env off n)"
  by (simp_all add: example_env_def)




lemma example_code_pages: "code_page (ee example_session) p \<longleftrightarrow> p = 0x40 \<or> p = 0x41"
proof -
  have n: "round_up_to_page_size 5000 div 4096 = 2"
    by (simp add: round_up_to_page_size_def)
  have range: "code_page (ee example_session) p \<longleftrightarrow> 64 \<le> unat p \<and> unat p < 66"
    by (simp add: code_page_def page_in_range_def example_session_def example_engine_def n)
  show ?thesis
  proof
    assume "code_page (ee example_session) p"
    with range have "unat p = 64 \<or> unat p = 65" by arith
    then show "p = 0x40 \<or> p = 0x41"
    proof
      assume "unat p = 64"
      then have "of_nat (unat p) = (of_nat 64 :: u64)" by (rule arg_cong)
      then show ?thesis by simp
    next
      assume "unat p = 65"
      then have "of_nat (unat p) = (of_nat 65 :: u64)" by (rule arg_cong)
      then show ?thesis by simp
    qed
  next
    assume "p = 0x40 \<or> p = 0x41"
    then show "code_page (ee example_session) p" by (auto simp: range)
  qed
qed


lemma forced_run_fields:
  "cpc (example_run 128 0 forced_schedule) = C_returned"
  "made_nx (example_run 128 0 forced_schedule)"
  "retval (example_run 128 0 forced_schedule) = Some 0"
  "page_executable (example_run 128 0 forced_schedule) 0x40"
  by (simp_all add: run_eval forced_schedule_def)

lemma forced_run_stopping:
  "cpc (example_run 128 0 (take 12 forced_schedule)) = C_kthread_stop"
  "made_nx (example_run 128 0 (take 12 forced_schedule))"
  "\<not> page_executable (example_run 128 0 (take 12 forced_schedule)) 0x40"
  by (simp_all add: run_eval forced_schedule_def)

lemma forced_run_x_fails_fields:
  "cpc (example_run_x_fails 128 0 forced_schedule) = C_returned"
  "made_nx (example_run_x_fails 128 0 forced_schedule)"
  "retval (example_run_x_fails 128 0 forced_schedule) = Some 0"
  "\<not> page_executable (example_run_x_fails 128 0 forced_schedule) 0x40"
  by (simp_all add: run_eval forced_schedule_def)

lemma rejected_run_fields:
  "cpc (example_run 64 1 forced_schedule) = C_returned"
  "made_nx (example_run 64 1 forced_schedule)"
  "task_ret (example_run 64 1 forced_schedule) = 99"
  "retval (example_run 64 1 forced_schedule) = Some 0"
  "trace (example_run 64 1 forced_schedule) = [Ev_up]"
  "klog (example_run 64 1 forced_schedule)
     = [Log_stack 0x80000 0x280000, Log_invalid_param_count, Log_result 99]"
  by (simp_all add: run_eval forced_schedule_def)

lemma rejected_run_waiting:
  "cpc (example_run 64 1 normal_schedule) = C_down_finished"
  "retval (example_run 64 1 normal_schedule) = None"
  "task_sem (example_run 64 1 normal_schedule) = 0"
  "rpc (example_run 64 1 normal_schedule) = R_exited 0"
  by (simp_all add: run_eval normal_schedule_def)

lemma racing_run_fields:
  "cpc (example_run 64 0 racing_schedule) = C_returned"
  "made_nx (example_run 64 0 racing_schedule)"
  "task_sem (example_run 64 0 racing_schedule) = 0"
  by (simp_all add: run_eval racing_schedule_def)

lemma racing_run_draining:
  "cpc (example_run 64 0 (take 18 racing_schedule)) = C_drain
   \<and> task_sem (example_run 64 0 (take 18 racing_schedule)) = 1"
  by (simp add: run_eval racing_schedule_def)

lemma normal_schedule_fair:
  "Signal \<notin> set normal_schedule"
  "subseq (replicate 5 Controller @ replicate 7 Runner @ replicate 7 Controller) normal_schedule"
  by (simp_all add: normal_schedule_def eval_nat_numeral)

section \<open>Running code: what the caller receives\<close>




section \<open>Running code: a nonzero parameter count\<close>

lemma run_failed_value:
  assumes "run_inv env sess x jr r s" and "cpc s = C_failed"
  shows "retval s = Some (scast (- EINVAL)) \<and> (ready sess = 0 \<or> \<not> kthread_create_succeeds env)"
  using assms by (simp add: run_inv_def ctl_inv_def)

lemma runner_never_calls:
  assumes "run_inv env sess x jr r s" and "param_count r \<noteq> 0"
  shows "(\<forall>off. Ev_call off \<notin> set (trace s)) \<and> (\<forall>off. rpc s \<noteq> R_call off) \<and> task_ret s = jr
       \<and> count_list (trace s) Ev_up \<le> 1"
  using assms by (cases "rpc s") (auto simp: run_inv_def runner_inv_def runner_finished_def)

lemma rejected_return_forced:
  assumes "run_inv env sess x jr r s" and "param_count r \<noteq> 0" and "cpc s = C_returned"
  shows "made_nx s"
  using assms runner_never_calls[OF assms(1,2)]
  by (auto simp: run_inv_def ctl_inv_def after_stop_def ups_def)

text \<open>
  C3. For a run request whose declared parameter count is nonzero the entry-point call
  (\<open>ee_call0\<close>) is never performed and \<open>task.ret\<close> is never written. The run does not
  fail with an error, though. The task body releases the semaphore only once: the branch
  that logs the invalid count lacks the second \<open>up\<close> of the other branch. So as long as
  no signal arrives the run does not return: the controller stays in the wait of line
  222. When it does return from its last line, it has been interrupted and has forced
  the termination, and it returns 0; no error for the request reaches the caller. An
  early return with \<open>-EINVAL\<close> happens only when the session is not ready or the worker
  could not be created.
\<close>

theorem handle_wasm_run_code_blocks_on_nonzero_params:
  assumes "copied_request env = Some r" and "param_count r \<noteq> 0"
  shows "(\<forall>off. Ev_call off \<notin> set (trace (handle_wasm_run_code env sess prot js jr sched)))
       \<and> (\<forall>off. rpc (handle_wasm_run_code env sess prot js jr sched) \<noteq> R_call off)
       \<and> task_ret (handle_wasm_run_code env sess prot js jr sched) = jr
       \<and> count_list (trace (handle_wasm_run_code env sess prot js jr sched)) Ev_up \<le> 1
       \<and> (Signal \<notin> set sched \<longrightarrow>
            cpc (handle_wasm_run_code env sess prot js jr sched) \<noteq> C_returned
            \<and> (cpc (handle_wasm_run_code env sess prot js jr sched) \<noteq> C_failed \<longrightarrow>
                 retval (handle_wasm_run_code env sess prot js jr sched) = None))
       \<and> (cpc (handle_wasm_run_code env sess prot js jr sched) = C_returned \<longrightarrow>
            made_nx (handle_wasm_run_code env sess prot js jr sched)
            \<and> retval (handle_wasm_run_code env sess prot js jr sched) = Some 0)
       \<and> (cpc (handle_wasm_run_code env sess prot js jr sched) = C_failed \<longrightarrow>
            retval (handle_wasm_run_code env sess prot js jr sched) = Some (scast (- EINVAL))
            \<and> (ready sess = 0 \<or> \<not> kthread_create_succeeds env))"
proof -
  let ?S = "handle_wasm_run_code env sess prot js jr sched"
  note inv = run_inv_run[OF assms(1), of sess prot jr js sched]
  have blocked: "Signal \<notin> set sched \<longrightarrow>
      cpc ?S \<noteq> C_returned \<and> (cpc ?S \<noteq> C_failed \<longrightarrow> retval ?S = None)"
  proof
    assume "Signal \<notin> set sched"
    from waiting_inv_schedule[OF assms this waiting_inv_entry]
    have "waiting_inv env sess prot jr r ?S" by (simp add: handle_wasm_run_code_def)
    then show "cpc ?S \<noteq> C_returned \<and> (cpc ?S \<noteq> C_failed \<longrightarrow> retval ?S = None)"
      by (rule waiting_not_returned)
  qed
  from runner_never_calls[OF inv assms(2)] blocked run_returned_value[OF inv]
    rejected_return_forced[OF inv assms(2)] run_failed_value[OF inv]
  show ?thesis by blast
qed

theorem handle_wasm_run_code_blocks_on_nonzero_params_witness:
  "copied_request (example_env 64 1) = Some \<lparr>entry_offset = 64, param_count = 1\<rparr>
   \<and> param_count \<lparr>entry_offset = 64, param_count = 1\<rparr> \<noteq> 0
   \<and> Ev_call 64 \<notin> set (trace (example_run 64 1 forced_schedule))
   \<and> task_ret (example_run 64 1 forced_schedule) = 99
   \<and> Signal \<notin> set normal_schedule
   \<and> cpc (example_run 64 1 normal_schedule) = C_down_finished
   \<and> rpc (example_run 64 1 normal_schedule) = R_exited 0
   \<and> task_sem (example_run 64 1 normal_schedule) = 0
   \<and> retval (example_run 64 1 normal_schedule) = None
   \<and> cpc (example_run 64 1 forced_schedule) = C_returned
   \<and> made_nx (example_run 64 1 forced_schedule)
   \<and> retval (example_run 64 1 forced_schedule) = Some 0
   \<and> (0 :: 64 word) \<noteq> scast (- EINVAL)"
proof -
  have c: "copied_request (example_env 64 1) = Some \<lparr>entry_offset = 64, param_count = 1\<rparr>"
    by (simp add: example_env_def)
  have p: "param_count \<lparr>entry_offset = 64, param_count = 1\<rparr> \<noteq> 0" by simp
  from handle_wasm_run_code_blocks_on_nonzero_params[OF c p, of example_session example_prot
      7 99 forced_schedule, folded example_run_def]
    handle_wasm_run_code_blocks_on_nonzero_params[OF c p, of example_session example_prot
      7 99 normal_schedule, folded example_run_def]
    c p normal_schedule_fair(1)
  show ?thesis by (simp add: rejected_run_fields rejected_run_waiting EINVAL_def)
qed

section \<open>Running code: the protection of the code buffer\<close>

lemma unat_code_pages:
  fixes l :: u32
  shows "unat (round_up_to_page_size (ucast l) div 4096) = (unat l + 4095) div 4096"
proof -
  have "unat (ucast l :: u64) \<le> 0xFFFFFFFFFFFFF000"
    using unat_u32_bound[of l] by (simp add: unat_ucast_u32)
  then have le: "(ucast l :: u64) \<le> 0xFFFFFFFFFFFFF000" by (simp add: word_le_nat_alt)
  show ?thesis by (simp add: unat_div unat_round_up[OF le] unat_ucast_u32)
qed

lemma code_page_of_byte:
  assumes aligned: "4096 dvd unat (code eng)"
    and inside: "unat (code eng) + unat (code_len eng) < 2 ^ 64"
    and i: "i < unat (code_len eng)"
  shows "code_page eng ((code eng + of_nat i) div 4096)"
proof -
  from aligned obtain k where k: "unat (code eng) = 4096 * k" by (auto simp: dvd_def)
  from i inside have small: "i < 2 ^ 64" by simp
  then have ui: "unat (of_nat i :: u64) = i" by (simp add: unat_of_nat)
  with i inside have sum: "unat (code eng + of_nat i) = unat (code eng) + i"
    by (simp add: unat_plus_if')
  have first: "unat (code eng div 4096) = k" by (simp add: unat_div k)
  have page: "unat ((code eng + of_nat i) div 4096) = k + i div 4096"
    by (simp add: unat_div sum k)
  from i have "i div 4096 < (unat (code_len eng) + 4095) div 4096" by arith
  then show ?thesis
    by (simp add: code_page_def page_in_range_def unat_code_pages first page)
qed

lemma prot_stopped_code_page:
  "set_memory_nx_succeeds env \<Longrightarrow> code_page (ee sess) p \<Longrightarrow> \<not> prot_stopped env sess prot p"
  by (simp add: prot_stopped_def ee_make_code_nx_def set_memory_nx_def code_page_def)

lemma prot_stopped_other_page:
  "\<not> code_page (ee sess) p \<Longrightarrow> prot_stopped env sess prot p = prot p"
  by (simp add: prot_stopped_def ee_make_code_nx_def set_memory_nx_def code_page_def)

lemma prot_restored_code_page:
  "set_memory_x_succeeds env \<Longrightarrow> code_page (ee sess) p \<Longrightarrow> prot_restored env sess prot p"
  by (simp add: prot_restored_def ee_make_code_x_def set_memory_x_def code_page_def)

lemma prot_restored_other_page:
  "\<not> code_page (ee sess) p \<Longrightarrow> prot_restored env sess prot p = prot p"
  by (simp add: prot_restored_def ee_make_code_x_def set_memory_x_def code_page_def
      prot_stopped_other_page[unfolded code_page_def])

lemma prot_restored_eq:
  assumes "set_memory_x_succeeds env" and "\<forall>p. code_page (ee sess) p \<longrightarrow> prot p"
  shows "prot_restored env sess prot = prot"
proof
  fix p
  show "prot_restored env sess prot p = prot p"
    using assms prot_restored_code_page[of env sess p prot]
      prot_restored_other_page[of sess p env prot]
    by (cases "code_page (ee sess) p") auto
qed

lemma run_code_protection:
  assumes "run_inv env sess prot jr r s"
  shows "(cpc s = C_failed \<or> cpc s = C_returned) \<and> \<not> made_nx s \<longrightarrow> page_executable s = prot"
    and "cpc s = C_returned \<and> made_nx s \<longrightarrow> page_executable s = prot_restored env sess prot"
    and "(cpc s = C_kthread_stop \<or> cpc s = C_report \<or> cpc s = C_drain \<or> cpc s = C_restore_x)
          \<and> made_nx s \<longrightarrow> page_executable s = prot_stopped env sess prot"
  using assms by (auto simp: run_inv_def ctl_inv_def before_nx_def)

text \<open>
  C4, as amended. On every path on which \<open>handle_wasm_run_code\<close> returns without an
  interrupted wait, the page protection is what it was on entry. After an interrupted
  wait (\<open>made_nx\<close>), provided the kernel's \<open>set_memory_x\<close> succeeds, every page of the code
  buffer is executable when the function returns and every other page has the
  protection it had on entry; so the protection on exit equals the protection on entry
  when the pages of the code buffer were executable on entry. Between \<open>kthread_stop\<close>
  and the end of the drain the pages of the code buffer are not executable when
  \<open>set_memory_nx\<close> succeeded. The pages are those of the bytes of the code buffer when the
  buffer starts on a page boundary.
\<close>

theorem handle_wasm_run_code_restores_protection:
  "((cpc (handle_wasm_run_code env sess prot js jr sched) = C_failed
      \<or> cpc (handle_wasm_run_code env sess prot js jr sched) = C_returned)
     \<and> \<not> made_nx (handle_wasm_run_code env sess prot js jr sched)
     \<longrightarrow> page_executable (handle_wasm_run_code env sess prot js jr sched) = prot)
   \<and> (cpc (handle_wasm_run_code env sess prot js jr sched) = C_returned
       \<and> made_nx (handle_wasm_run_code env sess prot js jr sched)
       \<and> set_memory_x_succeeds env
     \<longrightarrow> (\<forall>p. code_page (ee sess) p \<longrightarrow>
            page_executable (handle_wasm_run_code env sess prot js jr sched) p)
        \<and> (\<forall>p. \<not> code_page (ee sess) p \<longrightarrow>
            page_executable (handle_wasm_run_code env sess prot js jr sched) p = prot p))
   \<and> (cpc (handle_wasm_run_code env sess prot js jr sched) = C_returned
       \<and> made_nx (handle_wasm_run_code env sess prot js jr sched)
       \<and> set_memory_x_succeeds env \<and> (\<forall>p. code_page (ee sess) p \<longrightarrow> prot p)
     \<longrightarrow> page_executable (handle_wasm_run_code env sess prot js jr sched) = prot)
   \<and> ((cpc (handle_wasm_run_code env sess prot js jr sched) = C_kthread_stop
        \<or> cpc (handle_wasm_run_code env sess prot js jr sched) = C_report
        \<or> cpc (handle_wasm_run_code env sess prot js jr sched) = C_drain
        \<or> cpc (handle_wasm_run_code env sess prot js jr sched) = C_restore_x)
       \<and> made_nx (handle_wasm_run_code env sess prot js jr sched)
       \<and> set_memory_nx_succeeds env
     \<longrightarrow> (\<forall>p. code_page (ee sess) p \<longrightarrow>
            \<not> page_executable (handle_wasm_run_code env sess prot js jr sched) p))
   \<and> (4096 dvd unat (code (ee sess))
       \<and> unat (code (ee sess)) + unat (code_len (ee sess)) < 2 ^ 64
     \<longrightarrow> (\<forall>i < unat (code_len (ee sess)).
            code_page (ee sess) ((code (ee sess) + of_nat i) div 4096)))"
proof (cases rule: run_cases[of env sess prot js jr sched])
  case no_request
  then show ?thesis by (auto simp: no_request_inv_def code_page_of_byte)
next
  case (request r)
  note p = run_code_protection[OF request(2)]
  let ?S = "handle_wasm_run_code env sess prot js jr sched"
  have a: "(cpc ?S = C_failed \<or> cpc ?S = C_returned) \<and> \<not> made_nx ?S
      \<longrightarrow> page_executable ?S = prot"
    by (rule p(1))
  have b: "cpc ?S = C_returned \<and> made_nx ?S \<and> set_memory_x_succeeds env
      \<longrightarrow> (\<forall>p. code_page (ee sess) p \<longrightarrow> page_executable ?S p)
        \<and> (\<forall>p. \<not> code_page (ee sess) p \<longrightarrow> page_executable ?S p = prot p)"
    using p(2) by (auto simp: prot_restored_code_page prot_restored_other_page)
  have c: "cpc ?S = C_returned \<and> made_nx ?S \<and> set_memory_x_succeeds env
      \<and> (\<forall>p. code_page (ee sess) p \<longrightarrow> prot p) \<longrightarrow> page_executable ?S = prot"
    using p(2) by (auto simp: prot_restored_eq)
  have d: "(cpc ?S = C_kthread_stop \<or> cpc ?S = C_report \<or> cpc ?S = C_drain
        \<or> cpc ?S = C_restore_x) \<and> made_nx ?S \<and> set_memory_nx_succeeds env
      \<longrightarrow> (\<forall>p. code_page (ee sess) p \<longrightarrow> \<not> page_executable ?S p)"
    using p(3) by (auto simp: prot_stopped_code_page)
  have e: "4096 dvd unat (code (ee sess))
       \<and> unat (code (ee sess)) + unat (code_len (ee sess)) < 2 ^ 64
     \<longrightarrow> (\<forall>i < unat (code_len (ee sess)).
            code_page (ee sess) ((code (ee sess) + of_nat i) div 4096))"
    by (auto simp: code_page_of_byte)
  from a b c d e show ?thesis by (intro conjI)
qed

theorem handle_wasm_run_code_restores_protection_witness:
  "cpc (example_run 128 0 (take 12 forced_schedule)) = C_kthread_stop
   \<and> made_nx (example_run 128 0 (take 12 forced_schedule))
   \<and> set_memory_nx_succeeds (example_env 128 0)
   \<and> code_page (ee example_session) 0x40
   \<and> \<not> page_executable (example_run 128 0 (take 12 forced_schedule)) 0x40
   \<and> cpc (example_run 128 0 forced_schedule) = C_returned
   \<and> made_nx (example_run 128 0 forced_schedule)
   \<and> set_memory_x_succeeds (example_env 128 0)
   \<and> page_executable (example_run 128 0 forced_schedule) 0x40
   \<and> page_executable (example_run 128 0 forced_schedule) = example_prot"
proof -
  have pages: "\<forall>p. code_page (ee example_session) p \<longrightarrow> example_prot p"
    by (simp add: example_code_pages example_prot_def)
  have page: "code_page (ee example_session) 0x40" by (simp add: example_code_pages)
  from handle_wasm_run_code_restores_protection[of "example_env 128 0" example_session
      example_prot 7 99 forced_schedule, folded example_run_def]
    handle_wasm_run_code_restores_protection[of "example_env 128 0" example_session
      example_prot 7 99 "take 12 forced_schedule", folded example_run_def]
    pages page
  show ?thesis
    by (simp add: forced_run_fields forced_run_stopping example_env_fields)
qed

text \<open>
  C4, as stated, fails when \<open>set_memory_x\<close> fails: \<open>ee_make_code_x\<close> discards its result, so
  after a forced termination the run returns with page \<open>0x40\<close> of the code buffer, which
  was executable on entry, not executable.
\<close>

theorem handle_wasm_run_code_protection_not_restored:
  "cpc (example_run_x_fails 128 0 forced_schedule) = C_returned
   \<and> made_nx (example_run_x_fails 128 0 forced_schedule)
   \<and> code_page (ee example_session) 0x40
   \<and> example_prot 0x40
   \<and> \<not> page_executable (example_run_x_fails 128 0 forced_schedule) 0x40"
  by (simp add: forced_run_x_fails_fields example_code_pages example_prot_def)

section \<open>Running code: the handshake semaphore\<close>

lemma drain_terminates:
  "cpc s = C_drain \<Longrightarrow> task_sem s = n \<Longrightarrow>
     cpc (run_schedule env (replicate (Suc n) Controller) s) = C_restore_x
     \<and> task_sem (run_schedule env (replicate (Suc n) Controller) s) = 0"
proof (induction n arbitrary: s)
  case 0
  then show ?case by (simp add: step_def handle_wasm_run_code_step_def)
next
  case (Suc n)
  let ?s' = "step env Controller s"
  from Suc.prems have "cpc ?s' = C_drain" "task_sem ?s' = n"
    by (simp_all add: step_def handle_wasm_run_code_step_def)
  from Suc.IH[OF this] show ?case by simp
qed

text \<open>
  C5. Once the controller has left the drain loop of line 236, and so whenever the run
  returns from its last line, the count of the handshake semaphore is zero, whatever
  the order in which the runner's releases and the forced termination happened; and the
  drain loop, entered with any count, ends with count zero after one test of
  \<open>down_trylock\<close> more than the count.
\<close>

theorem handle_wasm_run_code_drains_semaphore:
  "(cpc (handle_wasm_run_code env sess x js jr sched) = C_restore_x
      \<or> cpc (handle_wasm_run_code env sess x js jr sched) = C_return
      \<or> cpc (handle_wasm_run_code env sess x js jr sched) = C_returned
     \<longrightarrow> task_sem (handle_wasm_run_code env sess x js jr sched) = 0)
   \<and> (cpc (handle_wasm_run_code env sess x js jr sched) = C_drain
     \<longrightarrow> cpc (run_schedule env
               (replicate (Suc (task_sem (handle_wasm_run_code env sess x js jr sched))) Controller)
               (handle_wasm_run_code env sess x js jr sched)) = C_restore_x
         \<and> task_sem (run_schedule env
               (replicate (Suc (task_sem (handle_wasm_run_code env sess x js jr sched))) Controller)
               (handle_wasm_run_code env sess x js jr sched)) = 0)"
proof (cases rule: run_cases[of env sess x js jr sched])
  case no_request
  then show ?thesis by (auto simp: no_request_inv_def)
next
  case (request r)
  have "task_sem (handle_wasm_run_code env sess x js jr sched) = 0"
    if "cpc (handle_wasm_run_code env sess x js jr sched) = C_restore_x
      \<or> cpc (handle_wasm_run_code env sess x js jr sched) = C_return
      \<or> cpc (handle_wasm_run_code env sess x js jr sched) = C_returned"
    using that request(2) by (auto simp: run_inv_def ctl_inv_def)
  with drain_terminates[of "handle_wasm_run_code env sess x js jr sched" _ env]
  show ?thesis by blast
qed

theorem handle_wasm_run_code_drains_semaphore_witness:
  "cpc (example_run 64 0 racing_schedule) = C_returned
   \<and> made_nx (example_run 64 0 racing_schedule)
   \<and> task_sem (example_run 64 0 racing_schedule) = 0
   \<and> cpc (example_run 64 0 (take 18 racing_schedule)) = C_drain
   \<and> task_sem (example_run 64 0 (take 18 racing_schedule)) = 1
   \<and> cpc (run_schedule (example_env 64 0) (replicate (Suc 1) Controller)
        (example_run 64 0 (take 18 racing_schedule))) = C_restore_x
   \<and> task_sem (run_schedule (example_env 64 0) (replicate (Suc 1) Controller)
        (example_run 64 0 (take 18 racing_schedule))) = 0"
  using handle_wasm_run_code_drains_semaphore[of "example_env 64 0" example_session example_prot 7 99
      racing_schedule, folded example_run_def]
    handle_wasm_run_code_drains_semaphore[of "example_env 64 0" example_session example_prot 7 99
      "take 18 racing_schedule", folded example_run_def]
    racing_run_draining
  by (simp add: racing_run_fields)

section \<open>Running code: the order of the task body's signals\<close>




end

